theory Spec2Isabelle
  imports Main "HOL-Library.Word"
begin

unbundle bit_operations_syntax

section \<open>B+Tree nodes (internal/btree/node.go)\<close>

type_synonym byte = "8 word"
type_synonym bytes = "byte list"

text \<open>
  Go distinguishes an error that a function returns from a run-time panic (an index or a
  slice bound out of range, a nil dereference, an explicit \<open>panic(...)\<close>). A panic is
  \<open>Inl\<close> of the result of a model function; a returned \<open>error\<close> is an ordinary value.
\<close>

datatype gopanic =
    IndexOutOfRange
  | SliceBoundsOutOfRange
  | NilDereference
  | ParentNotFound
  | NodeNotFoundInParent

datatype goerror =
    KeyTooLarge
  | ValueTooLarge
  | KeyAlreadyExists
  | KeyNotFound
  | DataTooShort
  | MergeTypeMismatch

definition BNODE_NODE :: "16 word" where "BNODE_NODE = 1"
definition BNODE_LEAF :: "16 word" where "BNODE_LEAF = 2"

definition BTREE_PAGE_SIZE :: nat where "BTREE_PAGE_SIZE = 4096"
definition BTREE_MAX_KEY_SIZE :: nat where "BTREE_MAX_KEY_SIZE = 1000"
definition BTREE_MAX_VAL_SIZE :: nat where "BTREE_MAX_VAL_SIZE = 3000"

text \<open>
  The struct \<open>Node\<close> (its field \<open>typ\<close> is \<open>node_typ\<close> here). Slices are lists:
  the model takes the capacity of a slice to be its length, so that reading or re-slicing
  past the length panics.
\<close>

record Node =
  node_typ :: "16 word"
  nkeys :: "16 word"
  pointers :: "64 word list"
  offsets :: "16 word list"
  data :: bytes

definition NewNode :: "16 word \<Rightarrow> Node" where
  "NewNode t = \<lparr>node_typ = t, nkeys = 0, pointers = [], offsets = [], data = []\<rparr>"

text \<open>Big-endian writes: \<open>byte(x >> 8), byte(x)\<close> and the eight bytes of a pointer.\<close>

definition put16 :: "16 word \<Rightarrow> bytes" where
  "put16 x = [ucast (drop_bit 8 x), ucast x]"

definition put64 :: "64 word \<Rightarrow> bytes" where
  "put64 p = [ucast (drop_bit 56 p), ucast (drop_bit 48 p), ucast (drop_bit 40 p),
              ucast (drop_bit 32 p), ucast (drop_bit 24 p), ucast (drop_bit 16 p),
              ucast (drop_bit 8 p), ucast p]"

text \<open>Big-endian reads: \<open>uint16(b0)<<8 | uint16(b1)\<close> and the same over eight bytes.\<close>

definition get16 :: "byte \<Rightarrow> byte \<Rightarrow> 16 word" where
  "get16 b0 b1 = push_bit 8 (ucast b0) OR ucast b1"

definition get64 :: "bytes \<Rightarrow> 64 word" where
  "get64 bs = push_bit 56 (ucast (bs ! 0)) OR push_bit 48 (ucast (bs ! 1))
            OR push_bit 40 (ucast (bs ! 2)) OR push_bit 32 (ucast (bs ! 3))
            OR push_bit 24 (ucast (bs ! 4)) OR push_bit 16 (ucast (bs ! 5))
            OR push_bit 8 (ucast (bs ! 6)) OR ucast (bs ! 7)"

text \<open>
  \<open>Node.Serialize\<close>: the buffer has exactly the size of the four parts, which are written
  one after the other, so the result is their concatenation. The pointer and offset loops
  run over \<open>len(n.pointers)\<close> and \<open>len(n.offsets)\<close>, not over \<open>n.nkeys\<close>.
\<close>

definition Serialize :: "Node \<Rightarrow> bytes" where
  "Serialize n = put16 (node_typ n) @ put16 (nkeys n)
     @ concat (map put64 (pointers n)) @ concat (map put16 (offsets n)) @ data n"

text \<open>
  The two read loops of \<open>Node.Deserialize\<close>, each run \<open>k\<close> more times from byte \<open>off\<close>.
  Nothing checks \<open>off\<close> against the buffer: indexing past it panics.
\<close>

fun readPointers :: "bytes \<Rightarrow> nat \<Rightarrow> nat \<Rightarrow> gopanic + (64 word list \<times> nat)" where
  "readPointers buf off 0 = Inr ([], off)"
| "readPointers buf off (Suc k) =
     (if off + 8 \<le> length buf then
        (case readPointers buf (off + 8) k of
           Inl p \<Rightarrow> Inl p
         | Inr (ps, off') \<Rightarrow> Inr (get64 (take 8 (drop off buf)) # ps, off'))
      else Inl IndexOutOfRange)"

fun readOffsets :: "bytes \<Rightarrow> nat \<Rightarrow> nat \<Rightarrow> gopanic + (16 word list \<times> nat)" where
  "readOffsets buf off 0 = Inr ([], off)"
| "readOffsets buf off (Suc k) =
     (if off + 2 \<le> length buf then
        (case readOffsets buf (off + 2) k of
           Inl p \<Rightarrow> Inl p
         | Inr (os, off') \<Rightarrow> Inr (get16 (buf ! off) (buf ! (off + 1)) # os, off'))
      else Inl IndexOutOfRange)"

text \<open>
  \<open>Node.Deserialize\<close> overwrites every field of its receiver, so the model returns the
  decoded node: \<open>Inl\<close> a panic, \<open>Inr (Inl e)\<close> the returned error, \<open>Inr (Inr n)\<close> the node.
\<close>

definition Deserialize :: "bytes \<Rightarrow> gopanic + (goerror + Node)" where
  "Deserialize buf =
     (if length buf < 4 then Inr (Inl DataTooShort)
      else
        let t = get16 (buf ! 0) (buf ! 1);
            nk = get16 (buf ! 2) (buf ! 3)
        in case readPointers buf 4 (unat nk) of
             Inl p \<Rightarrow> Inl p
           | Inr (ps, off1) \<Rightarrow>
               (case readOffsets buf off1 (unat nk) of
                  Inl p \<Rightarrow> Inl p
                | Inr (os, off2) \<Rightarrow>
                    Inr (Inr \<lparr>node_typ = t, nkeys = nk, pointers = ps, offsets = os,
                              data = drop off2 buf\<rparr>)))"

text \<open>\<open>Node.Size\<close>, \<open>Node.IsFull\<close> and \<open>Node.IsEmpty\<close>.\<close>

definition Size :: "Node \<Rightarrow> nat" where
  "Size n = 4 + length (pointers n) * 8 + length (offsets n) * 2 + length (data n)"

definition IsFull :: "Node \<Rightarrow> bool" where
  "IsFull n = (Size n \<ge> BTREE_PAGE_SIZE)"

definition IsEmpty :: "Node \<Rightarrow> bool" where
  "IsEmpty n = (nkeys n = 0)"

text \<open>
  One iteration of the loop of \<open>Node.keys\<close>: the key of entry \<open>i\<close>. An entry the loop
  skips (\<open>continue\<close>) leaves a nil key, the empty list here. All arithmetic on \<open>start\<close>,
  \<open>keyStart\<close> and \<open>keyEnd\<close> is \<open>uint16\<close> arithmetic; a slice \<open>data[lo:hi]\<close> with
  \<open>hi < lo\<close> panics.
\<close>

definition key_at :: "Node \<Rightarrow> nat \<Rightarrow> gopanic + bytes" where
  "key_at n i =
     (if i \<ge> length (offsets n) then Inr []
      else
        let start = offsets n ! i in
        if unat start + 4 > length (data n) then Inr []
        else
          let keyLen = get16 (data n ! unat start) (data n ! unat (start + 1));
              keyStart = start + 4;
              keyEnd = keyStart + keyLen
          in if unat keyEnd > length (data n) then Inr []
             else if keyEnd < keyStart then Inl SliceBoundsOutOfRange
             else Inr (take (unat keyEnd - unat keyStart) (drop (unat keyStart) (data n))))"

fun collect :: "(gopanic + 'a) list \<Rightarrow> gopanic + 'a list" where
  "collect [] = Inr []"
| "collect (r # rs) =
     (case r of
        Inl p \<Rightarrow> Inl p
      | Inr x \<Rightarrow> (case collect rs of Inl p \<Rightarrow> Inl p | Inr xs \<Rightarrow> Inr (x # xs)))"

definition keys :: "Node \<Rightarrow> gopanic + bytes list" where
  "keys n =
     (if nkeys n = 0 then Inr []
      else collect (map (key_at n) [0..<unat (nkeys n)]))"

text \<open>\<open>Node.getValue\<close>; the index is never negative at its call site.\<close>

definition getValue :: "Node \<Rightarrow> nat \<Rightarrow> gopanic + bytes" where
  "getValue n i =
     (if node_typ n \<noteq> BNODE_LEAF \<or> i \<ge> unat (nkeys n) then Inr []
      else if i \<ge> length (offsets n) then Inl IndexOutOfRange
      else
        let start = offsets n ! i in
        if unat start + 4 > length (data n) then Inr []
        else
          let keyLen = get16 (data n ! unat start) (data n ! unat (start + 1));
              valLen = get16 (data n ! unat (start + 2)) (data n ! unat (start + 3));
              valStart = start + 4 + keyLen;
              valEnd = valStart + valLen
          in if unat valEnd > length (data n) then Inr []
             else if valEnd < valStart then Inl SliceBoundsOutOfRange
             else Inr (take (unat valEnd - unat valStart) (drop (unat valStart) (data n))))"

text \<open>\<open>copy(dst[off:], src)\<close> for \<open>off \<le> len(dst)\<close>: as many bytes as fit.\<close>

definition copy_bytes :: "bytes \<Rightarrow> nat \<Rightarrow> bytes \<Rightarrow> bytes" where
  "copy_bytes dst off src =
     take off dst @ take (length dst - off) src @ drop (off + length src) dst"

text \<open>
  The entry \<open>keyLen(2B) | valLen(2B) | key | value\<close> that \<open>Node.insertKV\<close> builds. The
  lengths are truncated to \<open>uint16\<close>, and \<open>4+keyLen\<close> is a \<open>uint16\<close> sum.
\<close>

definition encodeEntry :: "bytes \<Rightarrow> bytes \<Rightarrow> bytes" where
  "encodeEntry key val =
     (let keyLen = (of_nat (length key) :: 16 word);
          valLen = (of_nat (length val) :: 16 word);
          entrySize = 4 + unat keyLen + unat valLen;
          entry0 = put16 keyLen @ put16 valLen @ replicate (entrySize - 4) 0;
          entry1 = copy_bytes entry0 4 key
      in copy_bytes entry1 (unat (4 + keyLen)) val)"

text \<open>\<open>Node.insertKV\<close>; the position is never negative at its call sites.\<close>

definition insertKV :: "Node \<Rightarrow> nat \<Rightarrow> bytes \<Rightarrow> bytes \<Rightarrow> gopanic + Node" where
  "insertKV n pos key val =
     (let entry = encodeEntry key val;
          entrySize = length entry
      in case (if pos = unat (nkeys n) then
                 Inr ((of_nat (length (data n)) :: 16 word), data n @ entry)
               else if pos \<ge> length (offsets n) then Inl IndexOutOfRange
               else
                 let newOffset = offsets n ! pos in
                 if unat newOffset > length (data n) then Inl SliceBoundsOutOfRange
                 else Inr (newOffset,
                           take (unat newOffset) (data n) @ entry @ drop (unat newOffset) (data n)))
         of
           Inl p \<Rightarrow> Inl p
         | Inr (newOffset, data') \<Rightarrow>
             if pos > length (offsets n) then Inl SliceBoundsOutOfRange
             else Inr (n\<lparr>data := data',
                         offsets := take pos (offsets n) @ [newOffset]
                                    @ map (\<lambda>off. off + of_nat entrySize) (drop pos (offsets n)),
                         nkeys := nkeys n + 1\<rparr>))"

text \<open>\<open>Node.removeKV\<close>; the position is never negative at its call site.\<close>

definition removeKV :: "Node \<Rightarrow> nat \<Rightarrow> gopanic + Node" where
  "removeKV n pos =
     (if pos \<ge> unat (nkeys n) then Inr n
      else if pos \<ge> length (offsets n) then Inl IndexOutOfRange
      else
        let start = offsets n ! pos in
        if unat start + 4 > length (data n) then Inr n
        else
          let keyLen = get16 (data n ! unat start) (data n ! unat (start + 1));
              valLen = get16 (data n ! unat (start + 2)) (data n ! unat (start + 3));
              entrySize = 4 + keyLen + valLen;
              end = start + entrySize
          in if unat end > length (data n) then Inl SliceBoundsOutOfRange
             else Inr (n\<lparr>data := take (unat start) (data n) @ drop (unat end) (data n),
                         offsets := take pos (offsets n)
                                    @ map (\<lambda>off. off - entrySize) (drop (Suc pos) (offsets n)),
                         nkeys := nkeys n - 1\<rparr>))"

text \<open>
  The promoted key that \<open>Node.Split\<close> reads from the right node: its first key, or nil
  when a bound check fails.
\<close>

definition promotedKey :: "Node \<Rightarrow> gopanic + bytes" where
  "promotedKey right =
     (if length (offsets right) > 0 then
        let off = offsets right ! 0 in
        if unat off + 4 \<le> length (data right) then
          let kLen = get16 (data right ! unat off) (data right ! unat (off + 1));
              kStart = off + 4;
              kEnd = kStart + kLen
          in if unat kEnd \<le> length (data right) then
               (if kEnd < kStart then Inl SliceBoundsOutOfRange
                else Inr (take (unat kEnd - unat kStart) (drop (unat kStart) (data right))))
             else Inr []
        else Inr []
      else Inr [])"

text \<open>
  \<open>Node.Split\<close> returns the receiver as it leaves it and, unless it answers
  \<open>(nil, nil)\<close>, the new right node with the promoted key. The split index is
  \<open>nkeys / 2\<close>, a count of entries: the byte sizes of the halves play no part.
\<close>

definition Split :: "Node \<Rightarrow> gopanic + (Node \<times> (Node \<times> bytes) option)" where
  "Split n =
     (if nkeys n < 2 then Inr (n, None)
      else
        let splitIdx = nkeys n div 2;
            si = unat splitIdx
        in if node_typ n = BNODE_NODE \<and> si > length (pointers n) then Inl SliceBoundsOutOfRange
           else if si \<ge> length (offsets n) then Inl IndexOutOfRange
           else
             let startOffset = offsets n ! si in
             if unat startOffset > length (data n) then Inl SliceBoundsOutOfRange
             else if length (offsets n) < unat (nkeys n) then Inl IndexOutOfRange
             else
               let right = \<lparr>node_typ = node_typ n,
                            nkeys = nkeys n - splitIdx,
                            pointers = (if node_typ n = BNODE_NODE then drop si (pointers n) else []),
                            offsets = map (\<lambda>off. off - startOffset)
                                        (take (unat (nkeys n - splitIdx)) (drop si (offsets n))),
                            data = drop (unat startOffset) (data n)\<rparr>;
                   left = n\<lparr>nkeys := splitIdx,
                            pointers := (if node_typ n = BNODE_NODE then take si (pointers n)
                                         else pointers n),
                            offsets := take si (offsets n),
                            data := take (unat startOffset) (data n)\<rparr>
               in case promotedKey right of
                    Inl p \<Rightarrow> Inl p
                  | Inr k \<Rightarrow> Inr (left, Some (right, k)))"


section \<open>The B+Tree (internal/btree/btree.go)\<close>

text \<open>
  Nodes are shared through pointers, and the tree finds a parent by comparing pointers, so
  the model has an explicit store: an address is a natural number, \<open>heap\<close> maps every
  address to the node it holds, \<open>nextAddr\<close> is the next free address, and a pointer
  \<open>*Node\<close> is an \<open>addr option\<close> with \<open>None\<close> for nil. The record also holds the two
  package-level variables of node.go: the map \<open>nodeRelationships\<close> from node ids to nodes
  (an association list with at most one pair per id) and the counter \<open>nextNodeID\<close>. The
  field \<open>size\<close> of the struct is \<open>tree_size\<close>.
\<close>

type_synonym addr = nat

text \<open>
  Go's \<open>int\<close> is a 64-bit two's complement integer on the platforms the program is built
  for. The model keeps such values as \<open>int\<close> and writes the wrap-around out where an
  operation can leave the range: \<open>wrap64\<close> is the value a sum has as an \<open>int\<close> of Go.
\<close>

definition wrap64 :: "int \<Rightarrow> int" where
  "wrap64 x = (x + 2 ^ 63) mod 2 ^ 64 - 2 ^ 63"

record BTree =
  heap :: "addr \<Rightarrow> Node"
  nextAddr :: addr
  nodeRelationships :: "(64 word \<times> addr) list"
  nextNodeID :: "64 word"
  root :: addr
  tree_size :: int

definition new_node :: "BTree \<Rightarrow> Node \<Rightarrow> BTree \<times> addr" where
  "new_node t n = (t\<lparr>heap := (heap t)(nextAddr t := n), nextAddr := Suc (nextAddr t)\<rparr>, nextAddr t)"

definition set_node :: "BTree \<Rightarrow> addr \<Rightarrow> Node \<Rightarrow> BTree" where
  "set_node t a n = t\<lparr>heap := (heap t)(a := n)\<rparr>"

text \<open>\<open>nodeRelationships[id] = child\<close>.\<close>

definition store_relationship :: "BTree \<Rightarrow> 64 word \<Rightarrow> addr \<Rightarrow> BTree" where
  "store_relationship t nid child =
     t\<lparr>nodeRelationships := (nid, child) # filter (\<lambda>(k, c). k \<noteq> nid) (nodeRelationships t)\<rparr>"

text \<open>\<open>NewBTree\<close>, in a process whose package-level variables have their initial values.\<close>

definition NewBTree :: BTree where
  "NewBTree = \<lparr>heap = (\<lambda>a. NewNode 0)(0 := NewNode BNODE_LEAF), nextAddr = 1,
               nodeRelationships = [], nextNodeID = 1, root = 0, tree_size = 0\<rparr>"

text \<open>
  \<open>Node.getChild\<close>: nil past the pointers; the node registered under the id; otherwise a
  fresh empty leaf, registered only when the id is not 0.
\<close>

definition getChild :: "BTree \<Rightarrow> addr \<Rightarrow> nat \<Rightarrow> BTree \<times> addr option" where
  "getChild t a i =
     (if i \<ge> length (pointers (heap t a)) then (t, None)
      else
        let nodeID = pointers (heap t a) ! i in
        case map_of (nodeRelationships t) nodeID of
          Some child \<Rightarrow> (t, Some child)
        | None \<Rightarrow>
            (case new_node t (NewNode BNODE_LEAF) of
               (t1, child) \<Rightarrow>
                 (if nodeID > 0 then store_relationship t1 nodeID child else t1, Some child)))"

text \<open>
  \<open>Node.setChild\<close>. The loop over \<open>nodeRelationships\<close> looks for an id of the child; Go
  visits a map in no fixed order, the model visits the list from its head, which gives the
  same id as long as no node is registered under two ids.
\<close>

definition setChild :: "BTree \<Rightarrow> addr \<Rightarrow> nat \<Rightarrow> addr option \<Rightarrow> BTree" where
  "setChild t a i child =
     (let n = heap t a;
          ptrs = (if i \<ge> length (pointers n)
                  then pointers n @ replicate (i - length (pointers n) + 1) 0
                  else pointers n);
          found = (case child of
                     None \<Rightarrow> 0
                   | Some c \<Rightarrow>
                       (case find (\<lambda>(k, nd). nd = c) (nodeRelationships t) of
                          None \<Rightarrow> 0
                        | Some (k, nd) \<Rightarrow> k))
      in case child of
           Some c \<Rightarrow>
             if found = 0 then
               set_node
                 ((store_relationship t (nextNodeID t) c)\<lparr>nextNodeID := nextNodeID t + 1\<rparr>)
                 a (n\<lparr>pointers := ptrs[i := nextNodeID t]\<rparr>)
             else set_node t a (n\<lparr>pointers := ptrs[i := found]\<rparr>)
         | None \<Rightarrow> set_node t a (n\<lparr>pointers := ptrs[i := found]\<rparr>))"

text \<open>\<open>bytes.Compare\<close>: -1, 0 or 1 by the lexicographic order of unsigned bytes.\<close>

fun bytes_Compare :: "bytes \<Rightarrow> bytes \<Rightarrow> int" where
  "bytes_Compare [] [] = 0"
| "bytes_Compare [] (y # ys) = - 1"
| "bytes_Compare (x # xs) [] = 1"
| "bytes_Compare (x # xs) (y # ys) =
     (if x < y then - 1 else if y < x then 1 else bytes_Compare xs ys)"

text \<open>
  The loops of \<open>findLeaf\<close> and \<open>insertInParent\<close> over the keys of an internal node: the
  index of the first key greater than \<open>key\<close>, or the number of keys.
\<close>

fun childIndex :: "bytes \<Rightarrow> bytes list \<Rightarrow> nat" where
  "childIndex key [] = 0"
| "childIndex key (k # ks) = (if bytes_Compare key k < 0 then 0 else Suc (childIndex key ks))"

text \<open>
  \<open>BTree.findLeaf\<close>. It follows pointers for as long as it meets internal nodes, so its
  result is an option: \<open>None\<close> when the descent never ends.
\<close>

partial_function (option) findLeaf ::
  "BTree \<Rightarrow> addr option \<Rightarrow> bytes \<Rightarrow> (gopanic + (BTree \<times> addr)) option" where
  "findLeaf t n key =
     (case n of
        None \<Rightarrow> Some (Inl NilDereference)
      | Some a \<Rightarrow>
          if node_typ (heap t a) = BNODE_LEAF then Some (Inr (t, a))
          else
            (case keys (heap t a) of
               Inl p \<Rightarrow> Some (Inl p)
             | Inr ks \<Rightarrow>
                 (case getChild t a (childIndex key ks) of
                    (t1, c) \<Rightarrow> findLeaf t1 c key)))"

declare findLeaf.simps [code]

text \<open>The loop of \<open>insertInLeaf\<close>: the position of the new key, or the duplicate error.\<close>

fun leafPosition :: "bytes \<Rightarrow> bytes list \<Rightarrow> goerror + nat" where
  "leafPosition key [] = Inr 0"
| "leafPosition key (k # ks) =
     (if bytes_Compare key k = 0 then Inl KeyAlreadyExists
      else if bytes_Compare key k < 0 then Inr 0
      else (case leafPosition key ks of Inl e \<Rightarrow> Inl e | Inr pos \<Rightarrow> Inr (Suc pos)))"

definition insertInLeaf ::
  "BTree \<Rightarrow> addr \<Rightarrow> bytes \<Rightarrow> bytes \<Rightarrow> gopanic + (goerror option \<times> BTree)" where
  "insertInLeaf t leaf key val =
     (case keys (heap t leaf) of
        Inl p \<Rightarrow> Inl p
      | Inr ks \<Rightarrow>
          (case leafPosition key ks of
             Inl e \<Rightarrow> Inr (Some e, t)
           | Inr pos \<Rightarrow>
               (case insertKV (heap t leaf) pos key val of
                  Inl p \<Rightarrow> Inl p
                | Inr n' \<Rightarrow> Inr (None, set_node t leaf n'))))"

text \<open>
  \<open>BTree.findParent\<close>. \<open>findParent_from t r target i\<close> is its loop over the children of
  the internal node \<open>r\<close>, from child \<open>i\<close> on; the recursive call on a child is unfolded in
  it: the child is not the target there, a leaf child has no parent to offer, and an
  internal child is searched from its child 0.
\<close>

partial_function (option) findParent_from ::
  "BTree \<Rightarrow> addr \<Rightarrow> addr \<Rightarrow> nat \<Rightarrow> (gopanic + (BTree \<times> addr option)) option" where
  "findParent_from t r target i =
     (if i < length (pointers (heap t r)) then
        (case getChild t r i of
           (t1, child) \<Rightarrow>
             if child = Some target then Some (Inr (t1, Some r))
             else
               (case child of
                  None \<Rightarrow> Some (Inl NilDereference)
                | Some c \<Rightarrow>
                    if node_typ (heap t1 c) = BNODE_LEAF then findParent_from t1 r target (Suc i)
                    else
                      Option.bind (findParent_from t1 c target 0)
                        (\<lambda>res. case res of
                                  Inl p \<Rightarrow> Some (Inl p)
                                | Inr (t2, found) \<Rightarrow>
                                    if found \<noteq> None then Some (Inr (t2, found))
                                    else findParent_from t2 r target (Suc i))))
      else Some (Inr (t, None)))"

declare findParent_from.simps [code]

definition findParent ::
  "BTree \<Rightarrow> addr \<Rightarrow> addr \<Rightarrow> (gopanic + (BTree \<times> addr option)) option" where
  "findParent t r target =
     (if r = target then Some (Inr (t, None))
      else if node_typ (heap t r) = BNODE_LEAF then Some (Inr (t, None))
      else findParent_from t r target 0)"

text \<open>
  \<open>BTree.insertInParent\<close>. On a parent that is not the root, the promoted key goes in at
  \<open>pos\<close> and \<open>setChild(pos+1, newNode)\<close> writes the new pointer: into a slot the parent
  already has when there is one, as a new last slot otherwise.
\<close>

partial_function (option) insertInParent ::
  "BTree \<Rightarrow> addr \<Rightarrow> bytes \<Rightarrow> addr option \<Rightarrow> (gopanic + BTree) option" where
  "insertInParent t oldNode key newNode =
     (if oldNode = root t then
        (case new_node t (NewNode BNODE_NODE) of
           (t1, newRoot) \<Rightarrow>
             (case insertKV (heap t1 newRoot) 0 key [] of
                Inl p \<Rightarrow> Some (Inl p)
              | Inr nr \<Rightarrow>
                  Some (Inr ((setChild (setChild (set_node t1 newRoot nr) newRoot 0 (Some oldNode))
                               newRoot 1 newNode)\<lparr>root := newRoot\<rparr>))))
      else
        Option.bind (findParent t (root t) oldNode)
          (\<lambda>res. case res of
                    Inl p \<Rightarrow> Some (Inl p)
                  | Inr (t1, found) \<Rightarrow>
                      (case found of
                         None \<Rightarrow> Some (Inl ParentNotFound)
                       | Some parent \<Rightarrow>
                           (case keys (heap t1 parent) of
                              Inl p \<Rightarrow> Some (Inl p)
                            | Inr ks \<Rightarrow>
                                (case insertKV (heap t1 parent) (childIndex key ks) key [] of
                                   Inl p \<Rightarrow> Some (Inl p)
                                 | Inr pn \<Rightarrow>
                                     (let t2 = setChild (set_node t1 parent pn) parent
                                                 (childIndex key ks + 1) newNode
                                      in if IsFull (heap t2 parent) then
                                           (case Split (heap t2 parent) of
                                              Inl p \<Rightarrow> Some (Inl p)
                                            | Inr (pn', rest) \<Rightarrow>
                                                (case rest of
                                                   None \<Rightarrow>
                                                     insertInParent (set_node t2 parent pn')
                                                       parent [] None
                                                 | Some (right, promoted) \<Rightarrow>
                                                     (case new_node (set_node t2 parent pn') right of
                                                        (t3, newParent) \<Rightarrow>
                                                          insertInParent t3 parent promoted
                                                            (Some newParent))))
                                         else Some (Inr t2)))))))"

declare insertInParent.simps [code]


text \<open>
  The last step of \<open>BTree.Insert\<close>: an overfull leaf is split once and the split is
  handed to \<open>insertInParent\<close>; nothing looks at the sizes of the two halves.
\<close>

definition splitLeaf :: "BTree \<Rightarrow> addr \<Rightarrow> (gopanic + BTree) option" where
  "splitLeaf t leaf =
     (if IsFull (heap t leaf) then
        (case Split (heap t leaf) of
           Inl p \<Rightarrow> Some (Inl p)
         | Inr (leaf', rest) \<Rightarrow>
             (case rest of
                None \<Rightarrow> insertInParent (set_node t leaf leaf') leaf [] None
              | Some (right, promoted) \<Rightarrow>
                  (case new_node (set_node t leaf leaf') right of
                     (t1, newLeaf) \<Rightarrow> insertInParent t1 leaf promoted (Some newLeaf))))
      else Some (Inr t))"

text \<open>
  \<open>BTree.Insert\<close>: a panic, or the returned error (\<open>None\<close> for nil) with the tree as the
  call leaves it.
\<close>

definition Insert ::
  "BTree \<Rightarrow> bytes \<Rightarrow> bytes \<Rightarrow> (gopanic + (goerror option \<times> BTree)) option" where
  "Insert t key val =
     (if length key > BTREE_MAX_KEY_SIZE then Some (Inr (Some KeyTooLarge, t))
      else if length val > BTREE_MAX_VAL_SIZE then Some (Inr (Some ValueTooLarge, t))
      else
        Option.bind (findLeaf t (Some (root t)) key)
          (\<lambda>res. case res of
                    Inl p \<Rightarrow> Some (Inl p)
                  | Inr (t1, leaf) \<Rightarrow>
                      (case insertInLeaf t1 leaf key val of
                         Inl p \<Rightarrow> Some (Inl p)
                       | Inr (err, t2) \<Rightarrow>
                           (case err of
                              Some e \<Rightarrow> Some (Inr (Some e, t2))
                            | None \<Rightarrow>
                                Option.bind (splitLeaf t2 leaf)
                                  (\<lambda>res2. case res2 of
                                             Inl p \<Rightarrow> Some (Inl p)
                                           | Inr t3 \<Rightarrow>
                                               Some (Inr (None,
                                                 t3\<lparr>tree_size := wrap64 (tree_size t3 + 1)\<rparr>)))))))"

text \<open>The loops of \<open>Get\<close> and \<open>Delete\<close>: the index of the first key equal to \<open>key\<close>.\<close>

fun keyIndex :: "bytes \<Rightarrow> bytes list \<Rightarrow> nat option" where
  "keyIndex key [] = None"
| "keyIndex key (k # ks) =
     (if bytes_Compare key k = 0 then Some 0
      else (case keyIndex key ks of None \<Rightarrow> None | Some i \<Rightarrow> Some (Suc i)))"

text \<open>\<open>BTree.Get\<close>: a panic, or the value and the error, with the tree as the call leaves it.\<close>

definition Get ::
  "BTree \<Rightarrow> bytes \<Rightarrow> (gopanic + ((bytes \<times> goerror option) \<times> BTree)) option" where
  "Get t key =
     Option.bind (findLeaf t (Some (root t)) key)
       (\<lambda>res. case res of
                 Inl p \<Rightarrow> Some (Inl p)
               | Inr (t1, leaf) \<Rightarrow>
                   (case keys (heap t1 leaf) of
                      Inl p \<Rightarrow> Some (Inl p)
                    | Inr ks \<Rightarrow>
                        (case keyIndex key ks of
                           None \<Rightarrow> Some (Inr (([], Some KeyNotFound), t1))
                         | Some i \<Rightarrow>
                             (case getValue (heap t1 leaf) i of
                                Inl p \<Rightarrow> Some (Inl p)
                              | Inr v \<Rightarrow> Some (Inr ((v, None), t1))))))"

text \<open>\<open>BTree.redistribute\<close> and \<open>BTree.merge\<close> have empty bodies in the source.\<close>

definition redistribute :: "BTree \<Rightarrow> addr \<Rightarrow> addr \<Rightarrow> addr \<Rightarrow> nat \<Rightarrow> BTree" where
  "redistribute t left right parent pos = t"

definition merge :: "BTree \<Rightarrow> addr option \<Rightarrow> addr option \<Rightarrow> addr \<Rightarrow> nat \<Rightarrow> BTree" where
  "merge t left right parent pos = t"

text \<open>\<open>Node.children\<close>: one \<open>getChild\<close> for each pointer, in order.\<close>

fun children_upto :: "BTree \<Rightarrow> addr \<Rightarrow> nat list \<Rightarrow> BTree \<times> addr option list" where
  "children_upto t a [] = (t, [])"
| "children_upto t a (i # is) =
     (case getChild t a i of
        (t1, c) \<Rightarrow> (case children_upto t1 a is of (t2, cs) \<Rightarrow> (t2, c # cs)))"

definition children :: "BTree \<Rightarrow> addr \<Rightarrow> BTree \<times> addr option list" where
  "children t a = children_upto t a [0..<length (pointers (heap t a))]"

fun childPosition :: "addr \<Rightarrow> addr option list \<Rightarrow> nat option" where
  "childPosition n [] = None"
| "childPosition n (c # cs) =
     (if c = Some n then Some 0
      else (case childPosition n cs of None \<Rightarrow> None | Some i \<Rightarrow> Some (Suc i)))"

text \<open>
  The part of \<open>BTree.rebalance\<close> after the position is known. \<open>IsFull\<close> on a nil sibling
  would dereference it.
\<close>

definition rebalance_at :: "BTree \<Rightarrow> addr \<Rightarrow> addr \<Rightarrow> nat \<Rightarrow> gopanic + BTree" where
  "rebalance_at t n parent pos =
     (case (if pos > 0 then
              (case getChild t parent (pos - 1) of
                 (t1, leftSibling) \<Rightarrow>
                   (case leftSibling of
                      None \<Rightarrow> Inl NilDereference
                    | Some l \<Rightarrow>
                        if \<not> IsFull (heap t1 l) then Inr (True, redistribute t1 l n parent (pos - 1))
                        else Inr (False, t1)))
            else Inr (False, t)) of
        Inl p \<Rightarrow> Inl p
      | Inr (done, t2) \<Rightarrow>
          if done then Inr t2
          else
            (case (case children t2 parent of
                     (t2', cs) \<Rightarrow>
                       if int pos < int (length cs) - 1 then
                         (case getChild t2' parent (pos + 1) of
                            (t3, rightSibling) \<Rightarrow>
                              (case rightSibling of
                                 None \<Rightarrow> Inl NilDereference
                               | Some r \<Rightarrow>
                                   if \<not> IsFull (heap t3 r)
                                   then Inr (True, redistribute t3 n r parent pos)
                                   else Inr (False, t3)))
                       else Inr (False, t2')) of
               Inl p \<Rightarrow> Inl p
             | Inr (done2, t4) \<Rightarrow>
                 if done2 then Inr t4
                 else if pos > 0 then
                   (case getChild t4 parent (pos - 1) of
                      (t5, leftSibling) \<Rightarrow> Inr (merge t5 leftSibling (Some n) parent (pos - 1)))
                 else
                   (case getChild t4 parent (pos + 1) of
                      (t5, rightSibling) \<Rightarrow> Inr (merge t5 (Some n) rightSibling parent pos))))"

text \<open>\<open>BTree.rebalance\<close>.\<close>

definition rebalance :: "BTree \<Rightarrow> addr \<Rightarrow> (gopanic + BTree) option" where
  "rebalance t n =
     Option.bind (findParent t (root t) n)
       (\<lambda>res. case res of
                 Inl p \<Rightarrow> Some (Inl p)
               | Inr (t1, found) \<Rightarrow>
                   (case found of
                      None \<Rightarrow> Some (Inr t1)
                    | Some parent \<Rightarrow>
                        (case children t1 parent of
                           (t2, cs) \<Rightarrow>
                             (case childPosition n cs of
                                None \<Rightarrow> Some (Inl NodeNotFoundInParent)
                              | Some pos \<Rightarrow> Some (rebalance_at t2 n parent pos)))))"

text \<open>\<open>BTree.Delete\<close>: a panic, or the returned error with the tree as the call leaves it.\<close>

definition Delete :: "BTree \<Rightarrow> bytes \<Rightarrow> (gopanic + (goerror option \<times> BTree)) option" where
  "Delete t key =
     Option.bind (findLeaf t (Some (root t)) key)
       (\<lambda>res. case res of
                 Inl p \<Rightarrow> Some (Inl p)
               | Inr (t1, leaf) \<Rightarrow>
                   (case keys (heap t1 leaf) of
                      Inl p \<Rightarrow> Some (Inl p)
                    | Inr ks \<Rightarrow>
                        (case keyIndex key ks of
                           None \<Rightarrow> Some (Inr (Some KeyNotFound, t1))
                         | Some pos \<Rightarrow>
                             (case removeKV (heap t1 leaf) pos of
                                Inl p \<Rightarrow> Some (Inl p)
                              | Inr leaf' \<Rightarrow>
                                  Option.bind
                                    (if IsEmpty leaf' \<and> leaf \<noteq> root t1
                                     then rebalance (set_node t1 leaf leaf') leaf
                                     else Some (Inr (set_node t1 leaf leaf')))
                                    (\<lambda>res2. case res2 of
                                               Inl p \<Rightarrow> Some (Inl p)
                                             | Inr t3 \<Rightarrow>
                                                 Some (Inr (None,
                                                   t3\<lparr>tree_size := wrap64 (tree_size t3 - 1)\<rparr>)))))))"

text \<open>\<open>BTree.Height\<close>: the loop from \<open>node\<close> with \<open>height\<close> levels counted so far.\<close>

partial_function (option) Height_from ::
  "BTree \<Rightarrow> addr option \<Rightarrow> int \<Rightarrow> (gopanic + (int \<times> BTree)) option" where
  "Height_from t node height =
     (case node of
        None \<Rightarrow> Some (Inl NilDereference)
      | Some a \<Rightarrow>
          if node_typ (heap t a) \<noteq> BNODE_LEAF then
            (case getChild t a 0 of (t1, c) \<Rightarrow> Height_from t1 c (height + 1))
          else Some (Inr (height, t)))"

declare Height_from.simps [code]

definition Height :: "BTree \<Rightarrow> (gopanic + (int \<times> BTree)) option" where
  "Height t = Height_from t (Some (root t)) 0"


section \<open>The storage engine over the B+Tree (package storage)\<close>

text \<open>
  \<open>StorageEngine.flush\<close> reads \<open>Size()\<close> and \<open>Height()\<close> of the tree and writes a
  placeholder payload to the file. The file is outside the model and its operations are
  taken to succeed; what is left of \<open>flush\<close> is the walk of \<open>Height\<close>.
\<close>

definition flush :: "BTree \<Rightarrow> (gopanic + (goerror option \<times> BTree)) option" where
  "flush t =
     Option.bind (Height t)
       (\<lambda>res. case res of
                 Inl p \<Rightarrow> Some (Inl p)
               | Inr (h, t1) \<Rightarrow> Some (Inr (None, t1)))"

text \<open>\<open>StorageEngine.Put\<close>, \<open>StorageEngine.Get\<close> and \<open>StorageEngine.Delete\<close>.\<close>

definition Put :: "BTree \<Rightarrow> bytes \<Rightarrow> bytes \<Rightarrow> (gopanic + (goerror option \<times> BTree)) option" where
  "Put t key val =
     Option.bind (Insert t key val)
       (\<lambda>res. case res of
                 Inl p \<Rightarrow> Some (Inl p)
               | Inr (err, t1) \<Rightarrow>
                   (case err of
                      Some e \<Rightarrow> Some (Inr (Some e, t1))
                    | None \<Rightarrow> flush t1))"

definition StorageEngine_Get ::
  "BTree \<Rightarrow> bytes \<Rightarrow> (gopanic + ((bytes \<times> goerror option) \<times> BTree)) option" where
  "StorageEngine_Get t key = Get t key"

definition StorageEngine_Delete ::
  "BTree \<Rightarrow> bytes \<Rightarrow> (gopanic + (goerror option \<times> BTree)) option" where
  "StorageEngine_Delete t key =
     Option.bind (Delete t key)
       (\<lambda>res. case res of
                 Inl p \<Rightarrow> Some (Inl p)
               | Inr (err, t1) \<Rightarrow>
                   (case err of
                      Some e \<Rightarrow> Some (Inr (Some e, t1))
                    | None \<Rightarrow> flush t1))"

section \<open>The Raft node (package raft)\<close>

datatype NodeState = Follower | Candidate | Leader

record LogEntry =
  Term :: int
  Index :: int
  Command :: bytes

record RequestVoteRequest =
  rv_Term :: int
  CandidateID :: string
  LastLogIndex :: int
  LastLogTerm :: int

record RequestVoteResponse =
  rvr_Term :: int
  VoteGranted :: bool

record AppendEntriesRequest =
  ae_Term :: int
  LeaderID :: string
  PrevLogIndex :: int
  PrevLogTerm :: int
  Entries :: "LogEntry list"
  LeaderCommit :: int

record AppendEntriesResponse =
  aer_Term :: int
  Success :: bool

text \<open>
  The struct \<open>RaftNode\<close> without its channels, mutex and context (its field \<open>id\<close> is
  \<open>node_id\<close>). The storage is the custom engine, that is the B+Tree; times are
  natural numbers, and the handlers take the reading of the clock as an argument.
\<close>

record RaftNode =
  node_id :: string
  currentTerm :: int
  votedFor :: string
  log :: "LogEntry list"
  commitIndex :: int
  lastApplied :: int
  nextIndex :: "string \<rightharpoonup> int"
  matchIndex :: "string \<rightharpoonup> int"
  state :: NodeState
  peers :: "string list"
  storage :: BTree
  electionTimeout :: nat
  lastHeartbeat :: nat

definition NewRaftNode :: "string \<Rightarrow> string list \<Rightarrow> BTree \<Rightarrow> nat \<Rightarrow> RaftNode" where
  "NewRaftNode i ps st timeout =
     \<lparr>node_id = i, currentTerm = 0, votedFor = [], log = [], commitIndex = 0,
      lastApplied = 0, nextIndex = Map.empty, matchIndex = Map.empty, state = Follower,
      peers = ps, storage = st, electionTimeout = timeout, lastHeartbeat = 0\<rparr>"

definition getLastLogTerm :: "RaftNode \<Rightarrow> int" where
  "getLastLogTerm n = (if length (log n) = 0 then 0 else Term (last (log n)))"

definition isLogUpToDate :: "RaftNode \<Rightarrow> int \<Rightarrow> int \<Rightarrow> bool" where
  "isLogUpToDate n candidateLastIndex candidateLastTerm =
     (let lastIndex = int (length (log n));
          lastTerm = getLastLogTerm n
      in candidateLastTerm > lastTerm
         \<or> (candidateLastTerm = lastTerm \<and> candidateLastIndex \<ge> lastIndex))"

text \<open>\<open>RaftRPC.logContainsEntry\<close>; a negative index reads \<open>log[index-1]\<close> out of range.\<close>

definition logContainsEntry :: "RaftNode \<Rightarrow> int \<Rightarrow> int \<Rightarrow> gopanic + bool" where
  "logContainsEntry n idx trm =
     (if idx = 0 then Inr True
      else if idx > int (length (log n)) then Inr False
      else if idx - 1 < 0 then Inl IndexOutOfRange
      else Inr (Term (log n ! nat (idx - 1)) = trm))"

text \<open>The adoption of a newer term, the same three assignments in every handler.\<close>

definition adoptTerm :: "RaftNode \<Rightarrow> int \<Rightarrow> RaftNode" where
  "adoptTerm n t =
     (if t > currentTerm n then n\<lparr>currentTerm := t, state := Follower, votedFor := []\<rparr> else n)"

text \<open>\<open>RaftRPC.RequestVote\<close>: the node as the handler leaves it, and the response.\<close>

definition RequestVote ::
  "RaftNode \<Rightarrow> nat \<Rightarrow> RequestVoteRequest \<Rightarrow> RaftNode \<times> RequestVoteResponse" where
  "RequestVote n now req =
     (if rv_Term req < currentTerm n then
        (n, \<lparr>rvr_Term = currentTerm n, VoteGranted = False\<rparr>)
      else
        let n1 = adoptTerm n (rv_Term req) in
        if (votedFor n1 = [] \<or> votedFor n1 = CandidateID req)
           \<and> isLogUpToDate n1 (LastLogIndex req) (LastLogTerm req)
        then (n1\<lparr>votedFor := CandidateID req, lastHeartbeat := now\<rparr>,
              \<lparr>rvr_Term = currentTerm n1, VoteGranted = True\<rparr>)
        else (n1, \<lparr>rvr_Term = currentTerm n1, VoteGranted = False\<rparr>))"

text \<open>
  One committed command applied to the storage, the body of the loop of
  \<open>applyCommittedEntries\<close>: \<open>Command[:4]\<close> panics on a command of fewer than four bytes;
  the errors that \<open>Put\<close> and \<open>Delete\<close> return are dropped.
\<close>

fun spaceIndex :: "bytes \<Rightarrow> nat option" where
  "spaceIndex [] = None"
| "spaceIndex (b # bs) =
     (if b = 32 then Some 0 else (case spaceIndex bs of None \<Rightarrow> None | Some i \<Rightarrow> Some (Suc i)))"

definition applyCommand :: "BTree \<Rightarrow> bytes \<Rightarrow> (gopanic + BTree) option" where
  "applyCommand st cmd =
     (if length cmd < 4 then Some (Inl SliceBoundsOutOfRange)
      else if take 4 cmd = [80, 85, 84, 32] then
        (case spaceIndex (drop 4 cmd) of
           None \<Rightarrow> Some (Inr st)
         | Some i \<Rightarrow>
             if i > 0 then
               Option.bind (Put st (take i (drop 4 cmd)) (drop (i + 1) (drop 4 cmd)))
                 (\<lambda>res. case res of Inl p \<Rightarrow> Some (Inl p) | Inr (err, st1) \<Rightarrow> Some (Inr st1))
             else Some (Inr st))
      else if take 4 cmd = [68, 69, 76, 32] then
        Option.bind (StorageEngine_Delete st (drop 4 cmd))
          (\<lambda>res. case res of Inl p \<Rightarrow> Some (Inl p) | Inr (err, st1) \<Rightarrow> Some (Inr st1))
      else Some (Inr st))"

text \<open>
  \<open>applyCommittedEntries\<close> (the same body in \<open>RaftRPC\<close> and in \<open>RaftNode\<close>). The
  increment of \<open>lastApplied\<close> cannot overflow, since \<open>lastApplied < commitIndex\<close>.
\<close>

function applyCommittedEntries :: "RaftNode \<Rightarrow> (gopanic + RaftNode) option" where
  "applyCommittedEntries n =
     (if lastApplied n < commitIndex n then
        (if lastApplied n < 0 \<or> lastApplied n \<ge> int (length (log n))
         then Some (Inl IndexOutOfRange)
         else
           Option.bind (applyCommand (storage n) (Command (log n ! nat (lastApplied n))))
             (\<lambda>res. case res of
                       Inl p \<Rightarrow> Some (Inl p)
                     | Inr st \<Rightarrow>
                         applyCommittedEntries
                           (n\<lparr>lastApplied := lastApplied n + 1, storage := st\<rparr>)))
      else Some (Inr n))"
  by pat_completeness auto
termination
  by (relation "measure (\<lambda>n. nat (commitIndex n - lastApplied n))") auto

declare applyCommittedEntries.simps [simp del]

text \<open>The conflict loop of \<open>AppendEntries\<close>, from \<open>logIndex\<close> on.\<close>

fun conflictIndex :: "LogEntry list \<Rightarrow> int \<Rightarrow> LogEntry list \<Rightarrow> gopanic + int option" where
  "conflictIndex lg logIndex [] = Inr None"
| "conflictIndex lg logIndex (e # es) =
     (if logIndex < int (length lg) then
        (if logIndex < 0 then Inl IndexOutOfRange
         else if Term (lg ! nat logIndex) \<noteq> Term e then Inr (Some logIndex)
         else conflictIndex lg (logIndex + 1) es)
      else conflictIndex lg (logIndex + 1) es)"

text \<open>The append loop of \<open>AppendEntries\<close>.\<close>

fun appendEntries :: "LogEntry list \<Rightarrow> LogEntry list \<Rightarrow> LogEntry list" where
  "appendEntries lg [] = lg"
| "appendEntries lg (e # es) = appendEntries (lg @ [e\<lparr>Index := int (length lg) + 1\<rparr>]) es"

text \<open>The update of \<open>commitIndex\<close> in \<open>AppendEntries\<close>.\<close>

definition updateCommitIndex :: "RaftNode \<Rightarrow> int \<Rightarrow> RaftNode" where
  "updateCommitIndex n leaderCommit =
     (if leaderCommit > commitIndex n then
        (if leaderCommit < int (length (log n))
         then n\<lparr>commitIndex := leaderCommit\<rparr>
         else n\<lparr>commitIndex := int (length (log n))\<rparr>)
      else n)"

text \<open>
  The second half of \<open>AppendEntries\<close>, once the check of the previous entry has passed:
  truncate at a conflict, append, move \<open>commitIndex\<close>, apply, answer success.
\<close>

definition acceptEntries ::
  "RaftNode \<Rightarrow> AppendEntriesRequest \<Rightarrow> (gopanic + (RaftNode \<times> AppendEntriesResponse)) option" where
  "acceptEntries n req =
     (case conflictIndex (log n) (PrevLogIndex req + 1) (Entries req) of
        Inl p \<Rightarrow> Some (Inl p)
      | Inr conflict \<Rightarrow>
          Option.bind
            (applyCommittedEntries
               (updateCommitIndex
                  (n\<lparr>log := appendEntries
                              (case conflict of None \<Rightarrow> log n | Some c \<Rightarrow> take (nat c) (log n))
                              (Entries req)\<rparr>)
                  (LeaderCommit req)))
            (\<lambda>res. case res of
                      Inl p \<Rightarrow> Some (Inl p)
                    | Inr n' \<Rightarrow> Some (Inr (n', \<lparr>aer_Term = currentTerm n', Success = True\<rparr>))))"

text \<open>
  \<open>RaftRPC.AppendEntries\<close>: a panic, or the node as the handler leaves it and the
  response. A request with no entries is answered before the log is looked at.
\<close>

definition AppendEntries ::
  "RaftNode \<Rightarrow> nat \<Rightarrow> AppendEntriesRequest
     \<Rightarrow> (gopanic + (RaftNode \<times> AppendEntriesResponse)) option" where
  "AppendEntries n now req =
     (if ae_Term req < currentTerm n then
        Some (Inr (n, \<lparr>aer_Term = currentTerm n, Success = False\<rparr>))
      else
        let n1 = (adoptTerm n (ae_Term req))\<lparr>lastHeartbeat := now\<rparr> in
        if length (Entries req) = 0 then
          Some (Inr (n1, \<lparr>aer_Term = currentTerm n1, Success = True\<rparr>))
        else
          (case logContainsEntry n1 (PrevLogIndex req) (PrevLogTerm req) of
             Inl p \<Rightarrow> Some (Inl p)
           | Inr found \<Rightarrow>
               if \<not> found then
                 Some (Inr (n1, \<lparr>aer_Term = currentTerm n1, Success = False\<rparr>))
               else acceptEntries n1 req))"

text \<open>
  \<open>RaftNode.startElection\<close>, the part that runs under the lock before the vote requests
  go out: \<open>n.currentTerm++\<close> is an increment of a Go \<open>int\<close>. The new election timeout is
  drawn at random in the source and is an argument here.
\<close>

definition startElection :: "RaftNode \<Rightarrow> nat \<Rightarrow> nat \<Rightarrow> RaftNode" where
  "startElection n now timeout =
     n\<lparr>state := Candidate, currentTerm := wrap64 (currentTerm n + 1), votedFor := node_id n,
       lastHeartbeat := now, electionTimeout := timeout\<rparr>"

text \<open>\<open>RaftNode.becomeLeader\<close>, up to the heartbeats it sends.\<close>

definition becomeLeader :: "RaftNode \<Rightarrow> nat \<Rightarrow> RaftNode" where
  "becomeLeader n now =
     n\<lparr>state := Leader, lastHeartbeat := now,
       nextIndex := fold (\<lambda>p m. m(p \<mapsto> int (length (log n)) + 1)) (peers n) (nextIndex n),
       matchIndex := fold (\<lambda>p m. m(p \<mapsto> 0)) (peers n) (matchIndex n)\<rparr>"

text \<open>
  What the goroutine of \<open>startElection\<close> does with the response of one peer, given the
  votes counted so far: the node and the new count.
\<close>

definition voteResponse ::
  "RaftNode \<Rightarrow> nat \<Rightarrow> int \<Rightarrow> RequestVoteResponse \<Rightarrow> RaftNode \<times> int" where
  "voteResponse n now votes resp =
     (if rvr_Term resp > currentTerm n then
        (n\<lparr>currentTerm := rvr_Term resp, state := Follower, votedFor := []\<rparr>, votes)
      else if VoteGranted resp then
        (if votes + 1 > (int (length (peers n)) + 1) div 2
         then (becomeLeader n now, votes + 1)
         else (n, votes + 1))
      else (n, votes))"

text \<open>What the goroutine of \<open>sendHeartbeats\<close> does with the response of one peer.\<close>

definition heartbeatResponse :: "RaftNode \<Rightarrow> AppendEntriesResponse \<Rightarrow> RaftNode" where
  "heartbeatResponse n resp =
     (if aer_Term resp > currentTerm n then
        n\<lparr>currentTerm := aer_Term resp, state := Follower, votedFor := []\<rparr>
      else n)"


section \<open>Operation sequences and the sorted map they are compared with\<close>

text \<open>
  A client of the tree calls \<open>Insert\<close>, \<open>Get\<close> and \<open>Delete\<close> one after the other. What
  it observes of a call is the returned error, and for \<open>Get\<close> the returned value too.
  \<open>run_ops\<close> makes the calls of a list in order on the tree each call leaves behind; a
  panic ends the run.
\<close>

datatype operation = OpInsert bytes bytes | OpGet bytes | OpDelete bytes

datatype observation = Returned "goerror option" | Value bytes "goerror option"

definition run_op :: "BTree \<Rightarrow> operation \<Rightarrow> (gopanic + (observation \<times> BTree)) option" where
  "run_op t op =
     (case op of
        OpInsert key val \<Rightarrow>
          Option.bind (Insert t key val)
            (\<lambda>res. case res of
                      Inl p \<Rightarrow> Some (Inl p)
                    | Inr (err, t1) \<Rightarrow> Some (Inr (Returned err, t1)))
      | OpGet key \<Rightarrow>
          Option.bind (Get t key)
            (\<lambda>res. case res of
                      Inl p \<Rightarrow> Some (Inl p)
                    | Inr ((v, err), t1) \<Rightarrow> Some (Inr (Value v err, t1)))
      | OpDelete key \<Rightarrow>
          Option.bind (Delete t key)
            (\<lambda>res. case res of
                      Inl p \<Rightarrow> Some (Inl p)
                    | Inr (err, t1) \<Rightarrow> Some (Inr (Returned err, t1))))"

fun run_ops :: "BTree \<Rightarrow> operation list \<Rightarrow> (gopanic + (observation list \<times> BTree)) option" where
  "run_ops t [] = Some (Inr ([], t))"
| "run_ops t (op # ops) =
     Option.bind (run_op t op)
       (\<lambda>res. case res of
                 Inl p \<Rightarrow> Some (Inl p)
               | Inr (ob, t1) \<Rightarrow>
                   Option.bind (run_ops t1 ops)
                     (\<lambda>res2. case res2 of
                                Inl p \<Rightarrow> Some (Inl p)
                              | Inr (obs, t2) \<Rightarrow> Some (Inr (ob # obs, t2))))"

text \<open>
  The reference of the specification: a map from keys to values, on which inserting a
  present key is \<open>DUPLICATE_KEY\<close> and reading or deleting an absent key is \<open>NOT_FOUND\<close>.
\<close>

definition sorted_map_op ::
  "(bytes \<rightharpoonup> bytes) \<Rightarrow> operation \<Rightarrow> observation \<times> (bytes \<rightharpoonup> bytes)" where
  "sorted_map_op m op =
     (case op of
        OpInsert key val \<Rightarrow>
          (case m key of
             Some old \<Rightarrow> (Returned (Some KeyAlreadyExists), m)
           | None \<Rightarrow> (Returned None, m(key \<mapsto> val)))
      | OpGet key \<Rightarrow>
          (case m key of
             Some v \<Rightarrow> (Value v None, m)
           | None \<Rightarrow> (Value [] (Some KeyNotFound), m))
      | OpDelete key \<Rightarrow>
          (case m key of
             Some old \<Rightarrow> (Returned None, m(key := None))
           | None \<Rightarrow> (Returned (Some KeyNotFound), m)))"

fun sorted_map_ops :: "(bytes \<rightharpoonup> bytes) \<Rightarrow> operation list \<Rightarrow> observation list" where
  "sorted_map_ops m [] = []"
| "sorted_map_ops m (op # ops) =
     (case sorted_map_op m op of (ob, m1) \<Rightarrow> ob # sorted_map_ops m1 ops)"


section \<open>Concrete inputs\<close>

text \<open>A replica that has just been created over an empty tree, with two peers.\<close>

definition fresh_replica :: RaftNode where
  "fresh_replica = NewRaftNode ''n1'' [''n2'', ''n3''] NewBTree 150"

text \<open>A value of \<open>k\<close> zero bytes.\<close>

definition zeros :: "nat \<Rightarrow> bytes" where
  "zeros k = replicate k 0"

section \<open>Rules for running the model on concrete inputs\<close>

lemmas node_defs = NewNode_def Size_def IsFull_def IsEmpty_def key_at_def keys_def getValue_def
  copy_bytes_def encodeEntry_def insertKV_def removeKV_def promotedKey_def Split_def
  put16_def get16_def BNODE_LEAF_def BNODE_NODE_def BTREE_PAGE_SIZE_def BTREE_MAX_KEY_SIZE_def
  BTREE_MAX_VAL_SIZE_def wrap64_def

lemmas tree_defs = new_node_def set_node_def store_relationship_def NewBTree_def getChild_def
  setChild_def insertInLeaf_def findParent_def splitLeaf_def Insert_def Get_def Delete_def
  rebalance_def rebalance_at_def children_def redistribute_def merge_def run_op_def
  findLeaf.simps findParent_from.simps insertInParent.simps

lemmas raft_defs = AppendEntries_def acceptEntries_def updateCommitIndex_def adoptTerm_def
  logContainsEntry_def NewRaftNode_def applyCommand_def Put_def flush_def Height_def
  Height_from.simps StorageEngine_Delete_def applyCommittedEntries.simps

lemmas eval_simps = node_defs tree_defs nth_append Let_def upt_conv_Cons

lemma length_zeros: "length (zeros k) = k"
  by (simp add: zeros_def)

section \<open>The errors of an insertion within the size bounds\<close>

lemma leafPosition_error: "leafPosition key ks = Inl e \<Longrightarrow> e = KeyAlreadyExists"
  by (induction ks) (auto split: if_splits sum.splits)

lemma insertInLeaf_error:
  "insertInLeaf t leaf key val = Inr (Some e, t') \<Longrightarrow> e = KeyAlreadyExists"
  by (auto simp: insertInLeaf_def split: sum.splits dest: leafPosition_error)

lemma Insert_in_bounds_error:
  assumes kb: "length key \<le> 1000" and vb: "length val \<le> 3000"
    and ins: "Insert t key val = Some (Inr (Some e, t'))"
  shows "e = KeyAlreadyExists"
proof -
  note defs = Insert_def BTREE_MAX_KEY_SIZE_def BTREE_MAX_VAL_SIZE_def
  show ?thesis
  proof (cases "findLeaf t (Some (root t)) key")
    case None
    with kb vb ins show ?thesis by (simp add: defs)
  next
    case (Some res)
    show ?thesis
    proof (cases res)
      case (Inl p)
      with Some kb vb ins show ?thesis by (simp add: defs)
    next
      case (Inr pr)
      obtain t1 leaf where pr: "pr = (t1, leaf)" by (cases pr)
      show ?thesis
      proof (cases "insertInLeaf t1 leaf key val")
        case (Inl p)
        with Some Inr pr kb vb ins show ?thesis by (simp add: defs)
      next
        case inl: (Inr q)
        obtain err t2 where q: "q = (err, t2)" by (cases q)
        show ?thesis
        proof (cases err)
          case None
          show ?thesis
          proof (cases "splitLeaf t2 leaf")
            case sn: None
            with None Some Inr pr inl q kb vb ins show ?thesis by (simp add: defs)
          next
            case ss: (Some r)
            with None Some Inr pr inl q kb vb ins show ?thesis
              by (cases r) (simp_all add: defs)
          qed
        next
          case se: (Some e')
          with Some Inr pr inl q kb vb ins have "e' = e" by (simp add: defs)
          with inl q se show ?thesis by (auto dest: insertInLeaf_error)
        qed
      qed
    qed
  qed
qed

section \<open>What the apply loop and the handlers leave alone\<close>

lemma applyCommittedEntries_frame:
  "applyCommittedEntries n = Some (Inr n') \<Longrightarrow> currentTerm n' = currentTerm n \<and> log n' = log n"
proof (induction n rule: applyCommittedEntries.induct)
  case (1 n)
  have unf: "applyCommittedEntries n =
     (if lastApplied n < commitIndex n then
        (if lastApplied n < 0 \<or> lastApplied n \<ge> int (length (log n))
         then Some (Inl IndexOutOfRange)
         else
           Option.bind (applyCommand (storage n) (Command (log n ! nat (lastApplied n))))
             (\<lambda>res. case res of
                       Inl p \<Rightarrow> Some (Inl p)
                     | Inr st \<Rightarrow>
                         applyCommittedEntries
                           (n\<lparr>lastApplied := lastApplied n + 1, storage := st\<rparr>)))
      else Some (Inr n))"
    by (rule applyCommittedEntries.simps)
  show ?case
  proof (cases "lastApplied n < commitIndex n")
    case False
    with "1.prems" unf have "n' = n" by simp
    then show ?thesis by simp
  next
    case True
    show ?thesis
    proof (cases "lastApplied n < 0 \<or> int (length (log n)) \<le> lastApplied n")
      case oob: True
      with True "1.prems" unf show ?thesis by simp
    next
      case inb: False
      show ?thesis
      proof (cases "applyCommand (storage n) (Command (log n ! nat (lastApplied n)))")
        case None
        with True inb "1.prems" unf show ?thesis by simp
      next
        case (Some r)
        show ?thesis
        proof (cases r)
          case (Inl p)
          with Some True inb "1.prems" unf show ?thesis by simp
        next
          case (Inr st)
          with Some True inb "1.prems" unf
          have rec: "applyCommittedEntries (n\<lparr>lastApplied := lastApplied n + 1, storage := st\<rparr>)
                     = Some (Inr n')"
            by simp
          from "1.IH" [OF True inb Some Inr rec] show ?thesis by simp
        qed
      qed
    qed
  qed
qed

lemma wrap64_increment: "x < 2 ^ 63 - 1 \<Longrightarrow> x < wrap64 (x + 1)"
proof (cases "- (2 ^ 63) \<le> x")
  case True
  assume "x < 2 ^ 63 - 1"
  with True have "(x + 1 + 2 ^ 63) mod 2 ^ 64 = x + 1 + 2 ^ 63"
    by (intro mod_pos_pos_trivial) auto
  then show ?thesis by (simp add: wrap64_def)
next
  case False
  have "0 \<le> (x + 1 + 2 ^ 63) mod (2 ^ 64 :: int)" by simp
  with False show ?thesis by (simp add: wrap64_def)
qed

lemma adoptTerm_ge: "currentTerm n \<le> currentTerm (adoptTerm n t)"
  by (simp add: adoptTerm_def)

lemma updateCommitIndex_frame:
  "currentTerm (updateCommitIndex n c) = currentTerm n \<and> log (updateCommitIndex n c) = log n"
  by (simp add: updateCommitIndex_def)

lemma acceptEntries_term:
  assumes "acceptEntries n req = Some (Inr (n', resp))"
  shows "currentTerm n' = currentTerm n"
proof (cases "conflictIndex (log n) (PrevLogIndex req + 1) (Entries req)")
  case (Inl p)
  with assms show ?thesis by (simp add: acceptEntries_def)
next
  case (Inr conflict)
  define n2 where "n2 = updateCommitIndex
      (n\<lparr>log := appendEntries
                  (case conflict of None \<Rightarrow> log n | Some c \<Rightarrow> take (nat c) (log n))
                  (Entries req)\<rparr>) (LeaderCommit req)"
  have t2: "currentTerm n2 = currentTerm n" by (simp add: n2_def updateCommitIndex_frame)
  from assms Inr have b: "Option.bind (applyCommittedEntries n2)
            (\<lambda>res. case res of
                      Inl p \<Rightarrow> Some (Inl p)
                    | Inr n' \<Rightarrow> Some (Inr (n', \<lparr>aer_Term = currentTerm n', Success = True\<rparr>)))
          = Some (Inr (n', resp))"
    by (simp add: acceptEntries_def n2_def)
  then obtain r where ap: "applyCommittedEntries n2 = Some r"
    by (cases "applyCommittedEntries n2") auto
  with b have "r = Inr n'" by (cases r) auto
  with ap applyCommittedEntries_frame [of n2 n'] t2 show ?thesis by simp
qed

lemma AppendEntries_term:
  assumes ae: "AppendEntries n now req = Some (Inr (n', resp))"
  shows "currentTerm n \<le> currentTerm n'"
proof (cases "ae_Term req < currentTerm n")
  case True
  with ae show ?thesis by (simp add: AppendEntries_def)
next
  case False
  let ?n1 = "(adoptTerm n (ae_Term req))\<lparr>lastHeartbeat := now\<rparr>"
  have n1: "currentTerm n \<le> currentTerm ?n1" by (simp add: adoptTerm_ge)
  show ?thesis
  proof (cases "length (Entries req) = 0")
    case True
    with ae False have "n' = ?n1" by (simp add: AppendEntries_def Let_def)
    with n1 show ?thesis by simp
  next
    case ne: False
    show ?thesis
    proof (cases "logContainsEntry ?n1 (PrevLogIndex req) (PrevLogTerm req)")
      case (Inl p)
      with ae False ne show ?thesis by (simp add: AppendEntries_def Let_def)
    next
      case (Inr found)
      show ?thesis
      proof (cases found)
        case f: False
        with ae False ne Inr have "n' = ?n1" by (simp add: AppendEntries_def Let_def)
        with n1 show ?thesis by simp
      next
        case t: True
        with ae False ne Inr have "acceptEntries ?n1 req = Some (Inr (n', resp))"
          by (simp add: AppendEntries_def Let_def)
        from acceptEntries_term [OF this] n1 show ?thesis by simp
      qed
    qed
  qed
qed

section \<open>Three runs of the tree and one of the replica\<close>

text \<open>
  Each run starts from \<open>NewBTree\<close>. The values are long enough for a leaf to reach the
  page size after two or three insertions; only their length matters.
\<close>

lemma lost_sibling_run:
  "length v = 3000 \<Longrightarrow>
   run_ops NewBTree [OpInsert [98] v, OpInsert [99] v, OpInsert [97] v, OpGet [99]]
     = Some (Inl NilDereference)"
  by (simp add: eval_simps)

lemma lost_sibling_map:
  "sorted_map_ops Map.empty [OpInsert [98] v, OpInsert [99] v, OpInsert [97] v, OpGet [99]]
     = [Returned None, Returned None, Returned None, Value v None]"
  by (simp add: sorted_map_op_def)

lemma empty_leaf_run:
  "length v = 3000 \<Longrightarrow>
   (case run_ops NewBTree [OpInsert [98] v, OpInsert [99] v, OpDelete [98]] of
      Some (Inr (obs, t)) \<Rightarrow>
        obs = [Returned None, Returned None, Returned None]
        \<and> getChild t (root t) 0 = (t, Some 0) \<and> root t = 2 \<and> IsEmpty (heap t 0)
    | _ \<Rightarrow> False)"
  by (simp add: eval_simps)

lemma overfull_half_run:
  "length v = 2100 \<Longrightarrow>
   (case run_ops NewBTree [OpInsert [97] [], OpInsert [98] v, OpInsert [99] v] of
      Some (Inr (obs, t)) \<Rightarrow>
        obs = [Returned None, Returned None, Returned None]
        \<and> getChild t (root t) 1 = (t, Some 1) \<and> Size (heap t 1) = 4218
    | _ \<Rightarrow> False)"
  by (simp add: eval_simps)


section \<open>Serialization of a node whose counts agree\<close>

text \<open>
  \<open>Deserialize\<close> reads \<open>nkeys\<close> pointers and \<open>nkeys\<close> offsets. It gives back the node
  that \<open>Serialize\<close> wrote when the node has exactly that many of each, which is what
  \<open>Node.Validate\<close> asks of a node.
\<close>

lemma get16_put16: "get16 (ucast (drop_bit 8 x)) (ucast x) = x"
  unfolding get16_def
  by (rule bit_word_eqI) (auto simp: bit_simps)

lemma get64_put64: "get64 (put64 p) = p"
proof (rule bit_word_eqI)
  fix n
  assume "n < LENGTH(64)"
  then have "n < 64" by simp
  then consider "n < 8" | "8 \<le> n \<and> n < 16" | "16 \<le> n \<and> n < 24" | "24 \<le> n \<and> n < 32"
    | "32 \<le> n \<and> n < 40" | "40 \<le> n \<and> n < 48" | "48 \<le> n \<and> n < 56" | "56 \<le> n \<and> n < 64"
    by linarith
  then show "bit (get64 (put64 p)) n = bit p n"
  proof cases
    case 1 then show ?thesis by (auto simp: get64_def put64_def bit_simps)
  next
    case 2 then show ?thesis by (auto simp: get64_def put64_def bit_simps)
  next
    case 3 then show ?thesis by (auto simp: get64_def put64_def bit_simps)
  next
    case 4 then show ?thesis by (auto simp: get64_def put64_def bit_simps)
  next
    case 5 then show ?thesis by (auto simp: get64_def put64_def bit_simps)
  next
    case 6 then show ?thesis by (auto simp: get64_def put64_def bit_simps)
  next
    case 7 then show ?thesis by (auto simp: get64_def put64_def bit_simps)
  next
    case 8 then show ?thesis by (auto simp: get64_def put64_def bit_simps)
  qed
qed

lemma readPointers_Serialize:
  "readPointers (pre @ concat (map put64 ps) @ rest) (length pre) (length ps)
     = Inr (ps, length pre + 8 * length ps)"
proof (induction ps arbitrary: pre)
  case Nil
  show ?case by simp
next
  case (Cons p ps)
  have len: "length (put64 p) = 8" by (simp add: put64_def)
  from Cons.IH [of "pre @ put64 p"] len
  have "readPointers (pre @ put64 p @ concat (map put64 ps) @ rest) (length pre + 8) (length ps)
          = Inr (ps, length pre + 8 + 8 * length ps)"
    by simp
  moreover have "take 8 (drop (length pre) (pre @ put64 p @ concat (map put64 ps) @ rest)) = put64 p"
    using len by simp
  ultimately show ?case using len by (simp add: get64_put64)
qed

lemma readOffsets_Serialize:
  "readOffsets (pre @ concat (map put16 os) @ rest) (length pre) (length os)
     = Inr (os, length pre + 2 * length os)"
proof (induction os arbitrary: pre)
  case Nil
  show ?case by simp
next
  case (Cons x os)
  let ?R = "concat (map put16 os) @ rest"
  have len: "length (put16 x) = 2" by (simp add: put16_def)
  have b0: "(pre @ put16 x @ ?R) ! length pre = ucast (drop_bit 8 x)"
    by (simp add: put16_def nth_append)
  have b1: "(pre @ put16 x @ ?R) ! (length pre + 1) = ucast x"
    by (simp add: put16_def nth_append)
  from Cons.IH [of "pre @ put16 x"] len
  have "readOffsets (pre @ put16 x @ ?R) (length pre + 2) (length os)
          = Inr (os, length pre + 2 + 2 * length os)"
    by simp
  with b0 b1 len show ?case by (simp add: get16_put16)
qed

lemma Deserialize_Serialize_equal_counts:
  assumes "length (pointers n) = unat (nkeys n)" and "length (offsets n) = unat (nkeys n)"
  shows "Deserialize (Serialize n) = Inr (Inr n)"
proof -
  let ?hdr = "put16 (node_typ n) @ put16 (nkeys n)"
  let ?pre = "?hdr @ concat (map put64 (pointers n))"
  have h: "length ?hdr = 4" by (simp add: put16_def)
  have l64: "length (concat (map put64 ps)) = 8 * length ps" for ps
    by (induction ps) (simp_all add: put64_def)
  have l16: "length (concat (map put16 os)) = 2 * length os" for os
    by (induction os) (simp_all add: put16_def)
  have lp: "length ?pre = 4 + 8 * length (pointers n)" using h l64 by simp
  have ser1: "Serialize n = ?hdr @ concat (map put64 (pointers n))
                              @ (concat (map put16 (offsets n)) @ data n)"
    by (simp add: Serialize_def)
  have ser2: "Serialize n = ?pre @ concat (map put16 (offsets n)) @ data n"
    by (simp add: Serialize_def)
  have p: "readPointers (Serialize n) 4 (unat (nkeys n))
           = Inr (pointers n, 4 + 8 * length (pointers n))"
    using readPointers_Serialize [of ?hdr "pointers n" "concat (map put16 (offsets n)) @ data n"]
    unfolding ser1 [symmetric] h assms(1) .
  have o: "readOffsets (Serialize n) (4 + 8 * length (pointers n)) (unat (nkeys n))
           = Inr (offsets n, 4 + 8 * length (pointers n) + 2 * length (offsets n))"
    using readOffsets_Serialize [of ?pre "offsets n" "data n"]
    unfolding ser2 [symmetric] lp assms(2) .
  have d: "drop (4 + 8 * length (pointers n) + 2 * length (offsets n)) (Serialize n) = data n"
    unfolding ser2 using lp l16 [of "offsets n"] by simp
  have t: "get16 ((Serialize n) ! 0) ((Serialize n) ! 1) = node_typ n"
    by (simp add: Serialize_def put16_def get16_put16)
  have k: "get16 ((Serialize n) ! 2) ((Serialize n) ! 3) = nkeys n"
    by (simp add: Serialize_def put16_def get16_put16)
  have len: "\<not> length (Serialize n) < 4" by (simp add: Serialize_def put16_def)
  show ?thesis
    unfolding Deserialize_def Let_def t k
    using len p o d by simp
qed

section \<open>The claims\<close>

subsection \<open>C1: the tree against a sorted map\<close>

text \<open>
  C1. For every sequence of Insert and Delete operations on a fresh BTree whose keys and
  values obey the size bounds, the observable results of Get, Insert and Delete equal those
  of a sorted map driven by the same operation sequence.

  The run below inserts the keys \<open>b\<close>, \<open>c\<close> and \<open>a\<close> with values of 3000 bytes and then
  reads \<open>c\<close>. The second insertion splits the root leaf into the leaves \<open>[b]\<close> and
  \<open>[c]\<close>; the third splits the leaf \<open>[a, b]\<close>, and \<open>insertInParent\<close> writes the pointer
  of the new leaf \<open>[b]\<close> with \<open>setChild(1, ...)\<close> over the pointer of the leaf \<open>[c]\<close>.
  The root then has two keys and two pointers, \<open>getChild(2)\<close> is nil, and \<open>Get\<close> of
  \<open>c\<close> dereferences it. The sorted map returns the value.
\<close>

theorem Get_panics_after_inner_leaf_split:
  "run_ops NewBTree
     [OpInsert [98] (zeros 3000), OpInsert [99] (zeros 3000), OpInsert [97] (zeros 3000),
      OpGet [99]]
     = Some (Inl NilDereference)
   \<and> sorted_map_ops Map.empty
     [OpInsert [98] (zeros 3000), OpInsert [99] (zeros 3000), OpInsert [97] (zeros 3000),
      OpGet [99]]
     = [Returned None, Returned None, Returned None, Value (zeros 3000) None]"
  by (rule conjI [OF lost_sibling_run [OF length_zeros] lost_sibling_map])

subsection \<open>C2: serialization round trip\<close>

text \<open>
  C2. For every node p (leaf or internal, any number of entries), deserializing the byte
  string produced by serializing p yields a node equal to p.

  \<open>Serialize\<close> writes \<open>len(n.pointers)\<close> pointers, \<open>Deserialize\<close> reads \<open>nkeys\<close> of
  them. A leaf has no pointers, so the leaf with the one entry \<open>a \<mapsto> b\<close>, as \<open>insertKV\<close>
  builds it, is written in 12 bytes; reading it back takes bytes 4 to 11 for a pointer and
  then indexes the buffer at 12.
\<close>

theorem Deserialize_Serialize_leaf_panics:
  "insertKV (NewNode BNODE_LEAF) 0 [97] [98] =
     Inr \<lparr>node_typ = 2, nkeys = 1, pointers = [], offsets = [0], data = [0, 1, 0, 1, 97, 98]\<rparr>
   \<and> Deserialize (Serialize \<lparr>node_typ = 2, nkeys = 1, pointers = [], offsets = [0],
                              data = [0, 1, 0, 1, 97, 98]\<rparr>) = Inl IndexOutOfRange"
  by (simp add: insertKV_def NewNode_def BNODE_LEAF_def encodeEntry_def copy_bytes_def put16_def
      Serialize_def Deserialize_def get16_def Let_def)

subsection \<open>C3: applying PUT on a present key\<close>

text \<open>
  C3. For every committed log entry whose command is PUT with a key that is already present
  in the index, applying the entry replaces the stored value with the new value, so that a
  subsequent Get returns the new value.

  A fresh replica receives the entries \<open>PUT k 1\<close> and \<open>PUT k 2\<close>, both committed. Both
  are applied; for the second, \<open>Insert\<close> returns the duplicate error, \<open>Put\<close> hands it on
  and the apply loop drops it. \<open>Get\<close> of \<open>k\<close> then returns \<open>1\<close>.
\<close>

theorem apply_PUT_keeps_old_value:
  "(case AppendEntries fresh_replica 0
           \<lparr>ae_Term = 1, LeaderID = ''n2'', PrevLogIndex = 0, PrevLogTerm = 0,
            Entries = [\<lparr>Term = 1, Index = 1, Command = [80, 85, 84, 32, 107, 32, 49]\<rparr>,
                       \<lparr>Term = 1, Index = 2, Command = [80, 85, 84, 32, 107, 32, 50]\<rparr>],
            LeaderCommit = 2\<rparr> of
      Some (Inr (n', resp)) \<Rightarrow>
        Success resp \<and> lastApplied n' = 2
        \<and> (case Get (storage n') [107] of
              Some (Inr ((v, err), t)) \<Rightarrow> v = [49] \<and> err = None
            | _ \<Rightarrow> False)
    | _ \<Rightarrow> False)"
  by (simp add: fresh_replica_def raft_defs eval_simps)

subsection \<open>C4: AppendEntries and the previous entry\<close>

text \<open>
  C4. For every AppendEntries request with term at least the receiver's currentTerm, if the
  receiver's log contains no entry at prevLogIndex whose term equals prevLogTerm (with
  prevLogIndex 0 vacuously matching), then the response has success = false and the
  receiver's log is unchanged; this holds for every such request, including those carrying
  no entries.

  The handler answers a request with no entries before it looks at the log: on a fresh
  replica, a heartbeat with prevLogIndex 5 is answered with success = true.
\<close>

theorem AppendEntries_heartbeat_skips_check:
  "currentTerm fresh_replica \<le> 1
   \<and> logContainsEntry ((adoptTerm fresh_replica 1)\<lparr>lastHeartbeat := 7\<rparr>) 5 1 = Inr False
   \<and> AppendEntries fresh_replica 7
      \<lparr>ae_Term = 1, LeaderID = ''n2'', PrevLogIndex = 5, PrevLogTerm = 1, Entries = [],
       LeaderCommit = 0\<rparr>
     = Some (Inr ((adoptTerm fresh_replica 1)\<lparr>lastHeartbeat := 7\<rparr>,
                  \<lparr>aer_Term = 1, Success = True\<rparr>))"
  by (simp add: AppendEntries_def adoptTerm_def logContainsEntry_def fresh_replica_def
      NewRaftNode_def Let_def)

text \<open>
  C4 as the code has it. For every AppendEntries request with term at least the receiver's
  currentTerm that carries at least one entry and whose prevLogIndex is not negative, if the
  receiver's log contains no entry at prevLogIndex whose term equals prevLogTerm (with
  prevLogIndex 0 vacuously matching), then the handler returns, the response has
  success = false and the receiver's log is unchanged. A request with term at least
  currentTerm that carries no entries is answered with success = true, whatever its
  prevLogIndex and prevLogTerm are, and leaves the log unchanged too.
\<close>

theorem AppendEntries_rejects_missing_entry:
  "(currentTerm n \<le> ae_Term req \<and> Entries req \<noteq> [] \<and> 0 \<le> PrevLogIndex req
     \<and> \<not> (PrevLogIndex req = 0
            \<or> (PrevLogIndex req \<le> int (length (log n))
                \<and> Term (log n ! nat (PrevLogIndex req - 1)) = PrevLogTerm req))
    \<longrightarrow> (\<exists>n' resp. AppendEntries n now req = Some (Inr (n', resp))
                     \<and> \<not> Success resp \<and> log n' = log n))
   \<and> (currentTerm n \<le> ae_Term req \<and> Entries req = []
    \<longrightarrow> (\<exists>n' resp. AppendEntries n now req = Some (Inr (n', resp))
                     \<and> Success resp \<and> log n' = log n))"
  by (auto simp: AppendEntries_def adoptTerm_def logContainsEntry_def Let_def)

theorem AppendEntries_rejects_missing_entry_witness:
  "(\<exists>n' resp. AppendEntries fresh_replica 7
      \<lparr>ae_Term = 1, LeaderID = ''n2'', PrevLogIndex = 5, PrevLogTerm = 1,
       Entries = [\<lparr>Term = 1, Index = 6, Command = [80, 85, 84, 32, 107, 32, 118]\<rparr>],
       LeaderCommit = 0\<rparr> = Some (Inr (n', resp))
     \<and> \<not> Success resp \<and> log n' = log fresh_replica)
   \<and> (\<exists>n' resp. AppendEntries fresh_replica 7
      \<lparr>ae_Term = 1, LeaderID = ''n2'', PrevLogIndex = 0, PrevLogTerm = 0, Entries = [],
       LeaderCommit = 0\<rparr> = Some (Inr (n', resp))
     \<and> Success resp \<and> log n' = log fresh_replica)"
  using AppendEntries_rejects_missing_entry [of fresh_replica
      "\<lparr>ae_Term = 1, LeaderID = ''n2'', PrevLogIndex = 5, PrevLogTerm = 1,
       Entries = [\<lparr>Term = 1, Index = 6, Command = [80, 85, 84, 32, 107, 32, 118]\<rparr>],
       LeaderCommit = 0\<rparr>" 7]
    AppendEntries_rejects_missing_entry [of fresh_replica
      "\<lparr>ae_Term = 1, LeaderID = ''n2'', PrevLogIndex = 0, PrevLogTerm = 0, Entries = [],
       LeaderCommit = 0\<rparr>" 7]
  by (simp add: fresh_replica_def NewRaftNode_def)

subsection \<open>C5: RequestVote\<close>

text \<open>
  C5. For every RequestVote request, the handler grants the vote if and only if the
  request's term is at least the receiver's currentTerm, votedFor (after any term adoption)
  is empty or equals the candidate, and the candidate's log is at least as up-to-date as the
  receiver's: lastLogTerm is greater, or equal with lastLogIndex at least the receiver's
  last index.

  The right-hand side is written on the fields of the receiver alone. The vote after the
  adoption is empty when the request's term is newer than currentTerm and is votedFor
  otherwise; the receiver's last term is 0 on an empty log and the term of its last entry
  otherwise; its last index is the length of its log.
\<close>

theorem RequestVote_grants_iff:
  "VoteGranted (snd (RequestVote n now req)) =
     (currentTerm n \<le> rv_Term req
      \<and> ((if currentTerm n < rv_Term req then [] else votedFor n) = []
           \<or> (if currentTerm n < rv_Term req then [] else votedFor n) = CandidateID req)
      \<and> (LastLogTerm req > (if log n = [] then 0 else Term (last (log n)))
          \<or> (LastLogTerm req = (if log n = [] then 0 else Term (last (log n)))
              \<and> LastLogIndex req \<ge> int (length (log n)))))"
  by (auto simp: RequestVote_def adoptTerm_def isLogUpToDate_def getLastLogTerm_def Let_def)

subsection \<open>C6: no empty node but the root after a delete\<close>

text \<open>
  C6. After every successful Delete on a BTree, no node other than the root has zero
  entries; a delete that empties a non-root leaf triggers redistribution or merging so that
  the empty leaf does not remain in the tree.

  \<open>rebalance\<close> calls \<open>redistribute\<close> or \<open>merge\<close>, and both have empty bodies. After the
  insertions of \<open>b\<close> and \<open>c\<close> with values of 3000 bytes the root is an internal node over the
  leaves \<open>[b]\<close> and \<open>[c]\<close>; the delete of \<open>b\<close> succeeds and the first child of the root
  stays in the tree with no entry.
\<close>

theorem Delete_leaves_empty_leaf:
  "(case run_ops NewBTree [OpInsert [98] (zeros 3000), OpInsert [99] (zeros 3000), OpDelete [98]] of
      Some (Inr (obs, t)) \<Rightarrow>
        obs = [Returned None, Returned None, Returned None]
        \<and> getChild t (root t) 0 = (t, Some 0) \<and> root t = 2 \<and> IsEmpty (heap t 0)
    | _ \<Rightarrow> False)"
  by (rule empty_leaf_run [OF length_zeros])

subsection \<open>C7: no node larger than a page\<close>

text \<open>
  C7. After every successful BTree operation, every node reachable from the root has
  serialized size at most 4096 bytes: an insertion that would leave a node overfull splits
  it, and both halves of every split fit in a page.

  \<open>Split\<close> cuts at the entry \<open>nkeys / 2\<close> and \<open>Insert\<close> splits once. With the keys \<open>a\<close>
  (empty value), \<open>b\<close> and \<open>c\<close> (values of 2100 bytes) the third insertion brings the leaf to
  4225 bytes; the split leaves \<open>[a]\<close> on the left and \<open>[b, c]\<close>, 4218 bytes, on the right,
  as the second child of the new root.
\<close>

theorem Split_leaves_overfull_half:
  "(case run_ops NewBTree [OpInsert [97] [], OpInsert [98] (zeros 2100), OpInsert [99] (zeros 2100)] of
      Some (Inr (obs, t)) \<Rightarrow>
        obs = [Returned None, Returned None, Returned None]
        \<and> getChild t (root t) 1 = (t, Some 1) \<and> Size (heap t 1) = 4218
    | _ \<Rightarrow> False)"
  by (rule overfull_half_run [OF length_zeros])

subsection \<open>C8: decoding a buffer that is too short\<close>

text \<open>
  C8. For every input byte slice, Deserialize either returns a decoded node or returns an
  error: when the declared nkeys, pointer array, offsets or entry lengths exceed the bounds
  of the input buffer, decoding fails with an error.

  The only check of \<open>Deserialize\<close> is that the buffer has four bytes. A header that
  declares one key and is followed by nothing makes the pointer loop index the buffer at 4,
  a run-time panic and not a returned error; an offset of 65535 into an empty entry region
  is decoded without any error.
\<close>

theorem Deserialize_unchecked_bounds:
  "Deserialize [0, 2, 0, 1] = Inl IndexOutOfRange
   \<and> Deserialize [0, 2, 0, 1, 0, 0, 0, 0, 0, 0, 0, 0, 255, 255] =
       Inr (Inr \<lparr>node_typ = 2, nkeys = 1, pointers = [0], offsets = [65535], data = []\<rparr>)"
  by (simp add: Deserialize_def get16_def get64_def)

subsection \<open>C9: the size bounds of Insert\<close>

text \<open>
  C9. For every tree state, Insert with a key longer than 1000 bytes fails with the
  key-too-large error, and Insert with a value longer than 3000 bytes fails with the
  value-too-large error; in both cases the error is returned and the tree is unchanged; keys
  and values within the bounds are never rejected for size.

  The key is checked first: with a key of 1001 bytes and a value of 3001 bytes the error is
  key-too-large, not value-too-large.
\<close>

theorem Insert_both_too_large:
  "length (zeros 3001) > 3000
   \<and> Insert NewBTree (zeros 1001) (zeros 3001) = Some (Inr (Some KeyTooLarge, NewBTree))
   \<and> Insert NewBTree (zeros 1001) (zeros 3001) \<noteq> Some (Inr (Some ValueTooLarge, NewBTree))"
  by (simp add: Insert_def BTREE_MAX_KEY_SIZE_def length_zeros)

text \<open>
  C9 as the code has it. For every tree state, Insert with a key longer than 1000 bytes
  returns the key-too-large error, and Insert with a key of at most 1000 bytes and a value
  longer than 3000 bytes returns the value-too-large error; in both cases the tree is
  unchanged. With a key and a value within the bounds, Insert returns neither of the two
  errors.
\<close>

theorem Insert_size_errors:
  "(length key > 1000 \<longrightarrow> Insert t key val = Some (Inr (Some KeyTooLarge, t)))
   \<and> (length key \<le> 1000 \<and> length val > 3000
        \<longrightarrow> Insert t key val = Some (Inr (Some ValueTooLarge, t)))
   \<and> (length key \<le> 1000 \<and> length val \<le> 3000
        \<longrightarrow> Insert t key val \<noteq> Some (Inr (Some KeyTooLarge, t'))
            \<and> Insert t key val \<noteq> Some (Inr (Some ValueTooLarge, t')))"
proof (intro conjI impI)
  show "length key > 1000 \<Longrightarrow> Insert t key val = Some (Inr (Some KeyTooLarge, t))"
    by (simp add: Insert_def BTREE_MAX_KEY_SIZE_def)
  show "length key \<le> 1000 \<and> length val > 3000
        \<Longrightarrow> Insert t key val = Some (Inr (Some ValueTooLarge, t))"
    by (simp add: Insert_def BTREE_MAX_KEY_SIZE_def BTREE_MAX_VAL_SIZE_def)
  show "length key \<le> 1000 \<and> length val \<le> 3000
        \<Longrightarrow> Insert t key val \<noteq> Some (Inr (Some KeyTooLarge, t'))"
    using Insert_in_bounds_error [of key val t KeyTooLarge t'] by auto
  show "length key \<le> 1000 \<and> length val \<le> 3000
        \<Longrightarrow> Insert t key val \<noteq> Some (Inr (Some ValueTooLarge, t'))"
    using Insert_in_bounds_error [of key val t ValueTooLarge t'] by auto
qed

theorem Insert_size_errors_witness:
  "Insert NewBTree (zeros 1001) [] = Some (Inr (Some KeyTooLarge, NewBTree))
   \<and> Insert NewBTree [107] (zeros 3001) = Some (Inr (Some ValueTooLarge, NewBTree))
   \<and> Insert NewBTree [107] [118] \<noteq> Some (Inr (Some KeyTooLarge, NewBTree))
   \<and> Insert NewBTree [107] [118] \<noteq> Some (Inr (Some ValueTooLarge, NewBTree))"
  using Insert_size_errors [where key = "zeros 1001" and t = NewBTree and val = "[]"]
    Insert_size_errors [where key = "[107]" and t = NewBTree and val = "zeros 3001"]
    Insert_size_errors [where key = "[107]" and t = NewBTree and val = "[118]"
      and t' = NewBTree]
  by (simp add: length_zeros)

subsection \<open>C10: currentTerm never decreases\<close>

text \<open>
  C10. On every replica, currentTerm never decreases: each operation that can modify it
  (handling RequestVote, handling AppendEntries, starting an election, and integrating an
  RPC response carrying a higher term) either leaves currentTerm unchanged or strictly
  increases it.

  \<open>startElection\<close> increments a Go \<open>int\<close>. A vote request may carry any term: after one
  with the term 9223372036854775807, which the replica adopts, the next election takes
  currentTerm to -9223372036854775808.
\<close>

theorem startElection_wraps_currentTerm:
  "currentTerm (fst (RequestVote fresh_replica 0
       \<lparr>rv_Term = 9223372036854775807, CandidateID = ''n2'', LastLogIndex = 0, LastLogTerm = 0\<rparr>))
     = 9223372036854775807
   \<and> currentTerm (startElection (fst (RequestVote fresh_replica 0
       \<lparr>rv_Term = 9223372036854775807, CandidateID = ''n2'', LastLogIndex = 0, LastLogTerm = 0\<rparr>))
       1 150) = - 9223372036854775808"
  by (simp add: fresh_replica_def NewRaftNode_def RequestVote_def adoptTerm_def isLogUpToDate_def
      getLastLogTerm_def startElection_def wrap64_def Let_def)

text \<open>
  C10 as the code has it. Handling RequestVote, handling AppendEntries (whenever the handler
  returns) and integrating the response of a peer to a vote request or to a heartbeat leave
  currentTerm unchanged or increase it; starting an election strictly increases it, provided
  it is below 9223372036854775807, the largest \<open>int\<close>.
\<close>

theorem currentTerm_never_decreases:
  "currentTerm n \<le> currentTerm (fst (RequestVote n now rv))
   \<and> (AppendEntries n now ae = Some (Inr (n', resp)) \<longrightarrow> currentTerm n \<le> currentTerm n')
   \<and> (currentTerm n < 2 ^ 63 - 1 \<longrightarrow> currentTerm n < currentTerm (startElection n now timeout))
   \<and> currentTerm n \<le> currentTerm (fst (voteResponse n now votes vr))
   \<and> currentTerm n \<le> currentTerm (heartbeatResponse n ar)"
proof (intro conjI impI)
  show "currentTerm n \<le> currentTerm (fst (RequestVote n now rv))"
    by (simp add: RequestVote_def adoptTerm_def Let_def)
  show "AppendEntries n now ae = Some (Inr (n', resp)) \<Longrightarrow> currentTerm n \<le> currentTerm n'"
    by (rule AppendEntries_term)
  show "currentTerm n < 2 ^ 63 - 1 \<Longrightarrow> currentTerm n < currentTerm (startElection n now timeout)"
    by (simp add: startElection_def wrap64_increment)
  show "currentTerm n \<le> currentTerm (fst (voteResponse n now votes vr))"
    by (simp add: voteResponse_def becomeLeader_def)
  show "currentTerm n \<le> currentTerm (heartbeatResponse n ar)"
    by (simp add: heartbeatResponse_def)
qed

theorem currentTerm_never_decreases_witness:
  "AppendEntries fresh_replica 5
      \<lparr>ae_Term = 3, LeaderID = ''n2'', PrevLogIndex = 0, PrevLogTerm = 0, Entries = [],
       LeaderCommit = 0\<rparr>
     = Some (Inr (fresh_replica\<lparr>currentTerm := 3, lastHeartbeat := 5\<rparr>,
                  \<lparr>aer_Term = 3, Success = True\<rparr>))
   \<and> currentTerm fresh_replica \<le> currentTerm (fresh_replica\<lparr>currentTerm := 3, lastHeartbeat := 5\<rparr>)
   \<and> currentTerm fresh_replica < 2 ^ 63 - 1
   \<and> currentTerm fresh_replica < currentTerm (startElection fresh_replica 5 200)"
proof -
  have ae: "AppendEntries fresh_replica 5
      \<lparr>ae_Term = 3, LeaderID = ''n2'', PrevLogIndex = 0, PrevLogTerm = 0, Entries = [],
       LeaderCommit = 0\<rparr>
     = Some (Inr (fresh_replica\<lparr>currentTerm := 3, lastHeartbeat := 5\<rparr>,
                  \<lparr>aer_Term = 3, Success = True\<rparr>))"
    by (simp add: AppendEntries_def adoptTerm_def fresh_replica_def NewRaftNode_def Let_def)
  have small: "currentTerm fresh_replica < 2 ^ 63 - 1"
    by (simp add: fresh_replica_def NewRaftNode_def)
  from currentTerm_never_decreases
      [where n = fresh_replica and now = 5 and timeout = 200
         and ae = "\<lparr>ae_Term = 3, LeaderID = ''n2'', PrevLogIndex = 0, PrevLogTerm = 0,
                    Entries = [], LeaderCommit = 0\<rparr>"
         and n' = "fresh_replica\<lparr>currentTerm := 3, lastHeartbeat := 5\<rparr>"
         and resp = "\<lparr>aer_Term = 3, Success = True\<rparr>"]
    ae small show ?thesis by simp
qed


end
